theory Spec2Isabelle
  imports Complex_Main "HOL-Library.Word"
begin

section \<open>Python values, exceptions and calls into the external libraries\<close>

text \<open>
  The module \<^verbatim>\<open>evox/operators/gaussian_process/classification.py\<close> is a wrapper around
  gpjax, jax and optax. Every object it handles (arrays, kernels, datasets, posteriors,
  distributions) belongs to one of these libraries, so the objects are opaque: a type
  variable \<open>'o\<close>. The only Python value the wrapper itself supplies is \<^verbatim>\<open>None\<close>, the
  default of the \<^verbatim>\<open>likelihood\<close> parameter.
\<close>

datatype 'o pyval = PyNone | PyObj 'o

text \<open>A Python exception: its class name and \<^verbatim>\<open>str(e)\<close>.\<close>

datatype pyexn = PyExn (exn_class: string) (exn_msg: string)

text \<open>\<^verbatim>\<open>jnp.float32\<close> is the only dtype the module names.\<close>

datatype dtype = Float32

text \<open>The keyword arguments of the call \<^verbatim>\<open>gpx.fit(model=..., objective=..., ...)\<close>.\<close>

record 'o fit_args =
  arg_model :: "'o pyval"
  arg_objective :: "'o pyval"
  arg_train_data :: "'o pyval"
  arg_optim :: "'o pyval"
  arg_num_iters :: int
  arg_key :: "'o pyval"
  arg_verbose :: bool

text \<open>
  A library call may read and change state of its own (caches, traces, the objects it
  was given): the world \<open>'w\<close>. It returns normally (\<open>Inr\<close>) or raises (\<open>Inl\<close>).
\<close>

type_synonym ('a, 'w) ext = "'w \<Rightarrow> (pyexn + 'a) \<times> 'w"

text \<open>
  The entry points of the libraries that the module calls, one field for each call
  expression of the source:
  \<^item> \<^verbatim>\<open>RBF()\<close>, \<^verbatim>\<open>Zero()\<close>, \<^verbatim>\<open>LogPosteriorDensity(negative=b)\<close>, \<^verbatim>\<open>jr.PRNGKey(n)\<close>
    and the function object \<^verbatim>\<open>ox.adam\<close> (the defaults of the parameters);
  \<^item> \<^verbatim>\<open>gpx.gps.Prior(mean_function=m, kernel=k)\<close> and \<^verbatim>\<open>a * b\<close>;
  \<^item> \<^verbatim>\<open>a.astype(t)\<close>, \<^verbatim>\<open>gpx.Dataset(X=a, y=b)\<close>, \<^verbatim>\<open>obj(model, train_data=d)\<close> and
    \<^verbatim>\<open>gpx.fit(...)\<close>, whose result is unpacked into two values;
  \<^item> \<^verbatim>\<open>p.predict(x, train_data=d)\<close>, \<^verbatim>\<open>p.likelihood(latent)\<close>, \<^verbatim>\<open>dist.mean()\<close> and
    \<^verbatim>\<open>dist.stddev()\<close>.
\<close>

record ('o, 'w) extlib =
  gpx_RBF :: "('o pyval, 'w) ext"
  gpx_Zero :: "('o pyval, 'w) ext"
  gpx_LogPosteriorDensity :: "bool \<Rightarrow> ('o pyval, 'w) ext"
  jr_PRNGKey :: "int \<Rightarrow> ('o pyval, 'w) ext"
  ox_adam :: "'o pyval"
  gpx_gps_Prior :: "'o pyval \<Rightarrow> 'o pyval \<Rightarrow> ('o pyval, 'w) ext"
  py_mul :: "'o pyval \<Rightarrow> 'o pyval \<Rightarrow> ('o pyval, 'w) ext"
  py_astype :: "'o pyval \<Rightarrow> dtype \<Rightarrow> ('o pyval, 'w) ext"
  gpx_Dataset :: "'o pyval \<Rightarrow> 'o pyval \<Rightarrow> ('o pyval, 'w) ext"
  call_objective :: "'o pyval \<Rightarrow> 'o pyval \<Rightarrow> 'o pyval \<Rightarrow> ('o pyval, 'w) ext"
  gpx_fit :: "'o fit_args \<Rightarrow> ('o pyval \<times> 'o pyval, 'w) ext"
  py_predict :: "'o pyval \<Rightarrow> 'o pyval \<Rightarrow> 'o pyval \<Rightarrow> ('o pyval, 'w) ext"
  py_likelihood :: "'o pyval \<Rightarrow> 'o pyval \<Rightarrow> ('o pyval, 'w) ext"
  py_mean :: "'o pyval \<Rightarrow> ('o pyval, 'w) ext"
  py_stddev :: "'o pyval \<Rightarrow> ('o pyval, 'w) ext"

text \<open>
  The calls the module makes are recorded, in order, each with its arguments and with
  the exception it raised, if any.
\<close>

datatype 'o call =
    C_RBF
  | C_Zero
  | C_LogPosteriorDensity bool
  | C_PRNGKey int
  | C_Prior "'o pyval" "'o pyval"
  | C_mul "'o pyval" "'o pyval"
  | C_astype "'o pyval" dtype
  | C_Dataset "'o pyval" "'o pyval"
  | C_objective "'o pyval" "'o pyval" "'o pyval"
  | C_fit "'o fit_args"
  | C_predict "'o pyval" "'o pyval" "'o pyval"
  | C_likelihood "'o pyval" "'o pyval"
  | C_mean "'o pyval"
  | C_stddev "'o pyval"

type_synonym 'o event = "'o call \<times> pyexn option"

fun is_objective_call :: "'o call \<Rightarrow> bool" where
  "is_objective_call (C_objective obj m d) = True"
| "is_objective_call c = False"

fun is_fit_call :: "'o call \<Rightarrow> bool" where
  "is_fit_call (C_fit a) = True"
| "is_fit_call c = False"

record ('o, 'w) env =
  world :: 'w
  calls :: "'o event list"

definition outcome :: "pyexn + 'a \<Rightarrow> pyexn option" where
  "outcome r = (case r of Inl e \<Rightarrow> Some e | Inr v \<Rightarrow> None)"

text \<open>Statements run in sequence; an exception ends the sequence (there is no handler).\<close>

definition py_return :: "'a \<Rightarrow> 's \<Rightarrow> (pyexn + 'a) \<times> 's" where
  "py_return v = (\<lambda>s. (Inr v, s))"

definition py_raise :: "pyexn \<Rightarrow> 's \<Rightarrow> (pyexn + 'a) \<times> 's" where
  "py_raise e = (\<lambda>s. (Inl e, s))"

definition py_bind ::
  "('s \<Rightarrow> (pyexn + 'a) \<times> 's) \<Rightarrow> ('a \<Rightarrow> 's \<Rightarrow> (pyexn + 'b) \<times> 's) \<Rightarrow> 's \<Rightarrow> (pyexn + 'b) \<times> 's" where
  "py_bind m k = (\<lambda>s. case m s of (Inl e, s') \<Rightarrow> (Inl e, s') | (Inr v, s') \<Rightarrow> k v s')"

definition ext_call ::
  "'o call \<Rightarrow> ('a, 'w) ext \<Rightarrow> ('o, 'w, 'z) env_scheme \<Rightarrow> (pyexn + 'a) \<times> ('o, 'w, 'z) env_scheme" where
  "ext_call c g = (\<lambda>s. case g (world s) of
      (r, w') \<Rightarrow> (r, s\<lparr>world := w', calls := calls s @ [(c, outcome r)]\<rparr>))"

text \<open>The calls a run added to the record of calls.\<close>

definition new_calls :: "('o, 'w, 'z) env_scheme \<Rightarrow> ('o, 'w, 'z) env_scheme \<Rightarrow> 'o event list" where
  "new_calls s s' = drop (length (calls s)) (calls s')"

section \<open>Loading the module: the import, the stubs and the class statement\<close>

text \<open>
  \<^verbatim>\<open>
  try:
      import gpjax as gpx
      from gpjax.mean_functions import Zero
      from gpjax.kernels import RBF
      from gpjax.objectives import LogPosteriorDensity
  except ImportError as e:
      original_error_msg = str(e)
      def gpx(*args, **kwargs):
          raise ImportError(f'gpjax requires gpjax, but got "{original_error_msg}" when importing')
      def RBF(*args, **kwargs):
          raise ImportError(f'RBF requires gpjax, but got "{original_error_msg}" when importing')
      ...
  \<close>
  The outcome of the import is an input of the model: it succeeded, or it raised an
  ImportError \<open>e\<close> with \<^verbatim>\<open>str(e)\<close> the given text. Each stub ignores its arguments.
\<close>

datatype import_result = Imported | ImportFailed string

definition gpx_stub :: "string \<Rightarrow> 's \<Rightarrow> (pyexn + 'a) \<times> 's" where
  "gpx_stub original_error_msg = py_raise (PyExn ''ImportError''
     (''gpjax requires gpjax, but got \"'' @ original_error_msg @ ''\" when importing''))"

definition RBF_stub :: "string \<Rightarrow> 's \<Rightarrow> (pyexn + 'a) \<times> 's" where
  "RBF_stub original_error_msg = py_raise (PyExn ''ImportError''
     (''RBF requires gpjax, but got \"'' @ original_error_msg @ ''\" when importing''))"

definition Zero_stub :: "string \<Rightarrow> 's \<Rightarrow> (pyexn + 'a) \<times> 's" where
  "Zero_stub original_error_msg = py_raise (PyExn ''ImportError''
     (''Zero requires gpjax, but got \"'' @ original_error_msg @ ''\" when importing''))"

definition LogPosteriorDensity_stub :: "string \<Rightarrow> 's \<Rightarrow> (pyexn + 'a) \<times> 's" where
  "LogPosteriorDensity_stub original_error_msg = py_raise (PyExn ''ImportError''
     (''LogPosteriorDensity requires gpjax, but got \"'' @ original_error_msg @ ''\" when importing''))"

text \<open>
  What the names \<^verbatim>\<open>RBF\<close>, \<^verbatim>\<open>Zero\<close> and \<^verbatim>\<open>LogPosteriorDensity\<close> are bound to when the
  class statement runs: the library's classes, or the stubs.
\<close>

record ('o, 'w) bindings =
  bound_RBF :: "('o, 'w) env \<Rightarrow> (pyexn + 'o pyval) \<times> ('o, 'w) env"
  bound_Zero :: "('o, 'w) env \<Rightarrow> (pyexn + 'o pyval) \<times> ('o, 'w) env"
  bound_LogPosteriorDensity :: "bool \<Rightarrow> ('o, 'w) env \<Rightarrow> (pyexn + 'o pyval) \<times> ('o, 'w) env"

definition bind_names :: "('o, 'w) extlib \<Rightarrow> import_result \<Rightarrow> ('o, 'w) bindings" where
  "bind_names l imp = (case imp of
      Imported \<Rightarrow>
        \<lparr>bound_RBF = ext_call C_RBF (gpx_RBF l),
         bound_Zero = ext_call C_Zero (gpx_Zero l),
         bound_LogPosteriorDensity =
           (\<lambda>negative. ext_call (C_LogPosteriorDensity negative) (gpx_LogPosteriorDensity l negative))\<rparr>
    | ImportFailed original_error_msg \<Rightarrow>
        \<lparr>bound_RBF = RBF_stub original_error_msg,
         bound_Zero = Zero_stub original_error_msg,
         bound_LogPosteriorDensity = (\<lambda>negative. LogPosteriorDensity_stub original_error_msg)\<rparr>)"

text \<open>
  \<^verbatim>\<open>
  class GPClassification:
      def __init__(self, kernel=RBF(), meanfun=Zero(), likelihood=None,
                   object=LogPosteriorDensity(negative=True), key=jr.PRNGKey(123)): ...
      def fit(self, x, y, optimizer=ox.adam): ...
  \<close>
  Python evaluates the defaults of the parameters once, from left to right, when the
  \<^verbatim>\<open>def\<close> statement runs, that is while the module loads. The class exists once all of
  them have been evaluated; what the class statement leaves behind are the defaults.
\<close>

record 'o defaults =
  default_kernel :: "'o pyval"
  default_meanfun :: "'o pyval"
  default_likelihood :: "'o pyval"
  default_object :: "'o pyval"
  default_key :: "'o pyval"
  default_optimizer :: "'o pyval"

definition class_GPClassification ::
  "('o, 'w) extlib \<Rightarrow> ('o, 'w) bindings \<Rightarrow> ('o, 'w) env \<Rightarrow> (pyexn + 'o defaults) \<times> ('o, 'w) env" where
  "class_GPClassification l b =
     py_bind (bound_RBF b) (\<lambda>kernel.
     py_bind (bound_Zero b) (\<lambda>meanfun.
     py_bind (bound_LogPosteriorDensity b True) (\<lambda>object.
     py_bind (ext_call (C_PRNGKey 123) (jr_PRNGKey l 123)) (\<lambda>key.
     py_return \<lparr>default_kernel = kernel, default_meanfun = meanfun,
                default_likelihood = PyNone, default_object = object,
                default_key = key, default_optimizer = ox_adam l\<rparr>))))"

definition module_load ::
  "('o, 'w) extlib \<Rightarrow> import_result \<Rightarrow> ('o, 'w) env \<Rightarrow> (pyexn + 'o defaults) \<times> ('o, 'w) env" where
  "module_load l imp = class_GPClassification l (bind_names l imp)"

section \<open>The class \<^verbatim>\<open>GPClassification\<close>\<close>

text \<open>
  The attributes of an instance. \<^verbatim>\<open>__init__\<close> assigns the first seven; an instance
  reaches a caller only after \<^verbatim>\<open>__init__\<close> has returned, so these are always set. The
  last three are assigned by \<^verbatim>\<open>fit\<close> and are unset (\<open>None\<close>) before: reading an unset
  attribute raises AttributeError.
\<close>

record 'o GPClassification =
  kernel :: "'o pyval"
  mean_fun :: "'o pyval"
  key :: "'o pyval"
  prior :: "'o pyval"
  likelihood :: "'o pyval"
  object :: "'o pyval"
  posterior :: "'o pyval"
  dataset :: "'o pyval option"
  opt_posterior :: "'o pyval option"
  history :: "'o pyval option"

text \<open>A method runs on \<^verbatim>\<open>self\<close>, the world of the libraries and the record of calls.\<close>

record ('o, 'w) frame = "('o, 'w) env" +
  self :: "'o GPClassification"

definition get_attr ::
  "('o GPClassification \<Rightarrow> 'a) \<Rightarrow> ('o, 'w) frame \<Rightarrow> (pyexn + 'a) \<times> ('o, 'w) frame" where
  "get_attr field = (\<lambda>s. (Inr (field (self s)), s))"

definition no_attribute :: "string \<Rightarrow> pyexn" where
  "no_attribute name = PyExn ''AttributeError''
     ([CHR 0x27] @ ''GPClassification'' @ [CHR 0x27] @ '' object has no attribute ''
        @ [CHR 0x27] @ name @ [CHR 0x27])"

definition get_fit_attr ::
  "string \<Rightarrow> ('o GPClassification \<Rightarrow> 'o pyval option) \<Rightarrow> ('o, 'w) frame
     \<Rightarrow> (pyexn + 'o pyval) \<times> ('o, 'w) frame" where
  "get_fit_attr name field = (\<lambda>s. case field (self s) of
      None \<Rightarrow> (Inl (no_attribute name), s)
    | Some v \<Rightarrow> (Inr v, s))"

definition set_attr ::
  "('o GPClassification \<Rightarrow> 'o GPClassification) \<Rightarrow> ('o, 'w) frame
     \<Rightarrow> (pyexn + unit) \<times> ('o, 'w) frame" where
  "set_attr upd = (\<lambda>s. (Inr (), s\<lparr>self := upd (self s)\<rparr>))"

text \<open>
  \<^verbatim>\<open>
  def __init__(self, kernel, meanfun, likelihood, object, key):
      self.kernel = kernel
      self.mean_fun = meanfun
      self.key = key
      self.prior = gpx.gps.Prior(mean_function=meanfun, kernel=kernel)
      self.likelihood = likelihood
      self.object = object
      self.posterior = self.prior * self.likelihood
  \<close>
  When one of the two calls raises, the half-built object is dropped with the
  exception; otherwise the instance with its seven attributes is returned.
\<close>

definition init ::
  "('o, 'w) extlib \<Rightarrow> 'o pyval \<Rightarrow> 'o pyval \<Rightarrow> 'o pyval \<Rightarrow> 'o pyval \<Rightarrow> 'o pyval
     \<Rightarrow> ('o, 'w) env \<Rightarrow> (pyexn + 'o GPClassification) \<times> ('o, 'w) env" where
  "init l kernel_arg meanfun likelihood_arg object_arg key_arg =
     py_bind (ext_call (C_Prior meanfun kernel_arg) (gpx_gps_Prior l meanfun kernel_arg)) (\<lambda>prior_obj.
     py_bind (ext_call (C_mul prior_obj likelihood_arg) (py_mul l prior_obj likelihood_arg)) (\<lambda>posterior_obj.
     py_return \<lparr>kernel = kernel_arg, mean_fun = meanfun, key = key_arg, prior = prior_obj,
                likelihood = likelihood_arg, object = object_arg, posterior = posterior_obj,
                dataset = None, opt_posterior = None, history = None\<rparr>))"

text \<open>
  The call \<^verbatim>\<open>GPClassification(...)\<close>: a parameter the caller leaves out takes the
  default that the class statement evaluated.
\<close>

definition or_default :: "'a option \<Rightarrow> 'a \<Rightarrow> 'a" where
  "or_default given dflt = (case given of None \<Rightarrow> dflt | Some v \<Rightarrow> v)"

definition GPClassification_new ::
  "('o, 'w) extlib \<Rightarrow> 'o defaults \<Rightarrow> 'o pyval option \<Rightarrow> 'o pyval option \<Rightarrow> 'o pyval option
     \<Rightarrow> 'o pyval option \<Rightarrow> 'o pyval option
     \<Rightarrow> ('o, 'w) env \<Rightarrow> (pyexn + 'o GPClassification) \<times> ('o, 'w) env" where
  "GPClassification_new l d kernel_arg meanfun likelihood_arg object_arg key_arg =
     init l (or_default kernel_arg (default_kernel d)) (or_default meanfun (default_meanfun d))
       (or_default likelihood_arg (default_likelihood d)) (or_default object_arg (default_object d))
       (or_default key_arg (default_key d))"

text \<open>
  \<^verbatim>\<open>
  def fit(self, x, y, optimizer=ox.adam):
      self.dataset = gpx.Dataset(X=x.astype(jnp.float32), y=y.astype(jnp.float32))
      self.object(self.posterior, train_data=self.dataset)
      self.opt_posterior, self.history = gpx.fit(
          model=self.posterior, objective=self.object, train_data=self.dataset,
          optim=optimizer, num_iters=500, key=self.key, verbose=False)
  \<close>
  The attribute reads and the calls are in Python's order of evaluation: the callee,
  then the arguments from left to right.
\<close>

definition fit ::
  "('o, 'w) extlib \<Rightarrow> 'o pyval \<Rightarrow> 'o pyval \<Rightarrow> 'o pyval
     \<Rightarrow> ('o, 'w) frame \<Rightarrow> (pyexn + unit) \<times> ('o, 'w) frame" where
  "fit l x y optimizer =
     py_bind (ext_call (C_astype x Float32) (py_astype l x Float32)) (\<lambda>x32.
     py_bind (ext_call (C_astype y Float32) (py_astype l y Float32)) (\<lambda>y32.
     py_bind (ext_call (C_Dataset x32 y32) (gpx_Dataset l x32 y32)) (\<lambda>d.
     py_bind (set_attr (\<lambda>i. i\<lparr>dataset := Some d\<rparr>)) (\<lambda>u.
     py_bind (get_attr object) (\<lambda>callee.
     py_bind (get_attr posterior) (\<lambda>post.
     py_bind (get_fit_attr ''dataset'' dataset) (\<lambda>ds.
     py_bind (ext_call (C_objective callee post ds) (call_objective l callee post ds)) (\<lambda>discarded.
     py_bind (get_attr posterior) (\<lambda>model_arg.
     py_bind (get_attr object) (\<lambda>objective_arg.
     py_bind (get_fit_attr ''dataset'' dataset) (\<lambda>train_data_arg.
     py_bind (get_attr key) (\<lambda>key_arg.
     py_bind (ext_call
         (C_fit \<lparr>arg_model = model_arg, arg_objective = objective_arg,
                 arg_train_data = train_data_arg, arg_optim = optimizer, arg_num_iters = 500,
                 arg_key = key_arg, arg_verbose = False\<rparr>)
         (gpx_fit l \<lparr>arg_model = model_arg, arg_objective = objective_arg,
                 arg_train_data = train_data_arg, arg_optim = optimizer, arg_num_iters = 500,
                 arg_key = key_arg, arg_verbose = False\<rparr>)) (\<lambda>res.
     py_bind (set_attr (\<lambda>i. i\<lparr>opt_posterior := Some (fst res)\<rparr>)) (\<lambda>u.
     set_attr (\<lambda>i. i\<lparr>history := Some (snd res)\<rparr>)))))))))))))))"

text \<open>The call \<^verbatim>\<open>model.fit(x, y)\<close> with the optimizer left out.\<close>

definition fit_default_optimizer ::
  "('o, 'w) extlib \<Rightarrow> 'o defaults \<Rightarrow> 'o pyval \<Rightarrow> 'o pyval
     \<Rightarrow> ('o, 'w) frame \<Rightarrow> (pyexn + unit) \<times> ('o, 'w) frame" where
  "fit_default_optimizer l d x y = fit l x y (default_optimizer d)"

text \<open>
  \<^verbatim>\<open>
  def predict(self, x):
      latent_dist = self.opt_posterior.predict(x, train_data=self.dataset)
      predictive_dist = self.opt_posterior.likelihood(latent_dist)
      predictive_mean = predictive_dist.mean()
      predictive_std = predictive_dist.stddev()
      return predictive_dist, predictive_mean, predictive_std
  \<close>
\<close>

definition predict ::
  "('o, 'w) extlib \<Rightarrow> 'o pyval
     \<Rightarrow> ('o, 'w) frame \<Rightarrow> (pyexn + 'o pyval \<times> 'o pyval \<times> 'o pyval) \<times> ('o, 'w) frame" where
  "predict l x =
     py_bind (get_fit_attr ''opt_posterior'' opt_posterior) (\<lambda>p.
     py_bind (get_fit_attr ''dataset'' dataset) (\<lambda>d.
     py_bind (ext_call (C_predict p x d) (py_predict l p x d)) (\<lambda>latent_dist.
     py_bind (get_fit_attr ''opt_posterior'' opt_posterior) (\<lambda>p'.
     py_bind (ext_call (C_likelihood p' latent_dist) (py_likelihood l p' latent_dist)) (\<lambda>predictive_dist.
     py_bind (ext_call (C_mean predictive_dist) (py_mean l predictive_dist)) (\<lambda>predictive_mean.
     py_bind (ext_call (C_stddev predictive_dist) (py_stddev l predictive_dist)) (\<lambda>predictive_std.
     py_return (predictive_dist, predictive_mean, predictive_std))))))))"

text \<open>
  Replacing the value that \<^verbatim>\<open>self.object(...)\<close> returns, and nothing else of what the
  call does: the same exceptions, the same effect on the world.
\<close>

definition with_objective_value :: "('o pyval \<Rightarrow> 'o pyval) \<Rightarrow> ('o, 'w) extlib \<Rightarrow> ('o, 'w) extlib" where
  "with_objective_value g l = l\<lparr>call_objective := (\<lambda>callee m d w.
      case call_objective l callee m d w of
        (Inl e, w') \<Rightarrow> (Inl e, w')
      | (Inr v, w') \<Rightarrow> (Inr (g v), w'))\<rparr>"

section \<open>The array snippet of the test script\<close>

text \<open>
  \<^verbatim>\<open>
  def f(x):
      return jnp.array([[x, x+1, x+2], [x+3, x+4, x+5], [x+6, x+7, x+8], [x+9, x+10, x+11]])
  \<close>
  An array is the nested list of its entries. The scalar \<open>x\<close> is of any type with
  addition and numerals: the integers, or \<open>32 word\<close> for jax's int32, whose \<open>+\<close> wraps.
\<close>

definition f :: "'a::semiring_1 \<Rightarrow> 'a list list" where
  "f x = [[x, x + 1, x + 2], [x + 3, x + 4, x + 5], [x + 6, x + 7, x + 8],
          [x + 9, x + 10, x + 11]]"

text \<open>
  \<^verbatim>\<open>jax.vmap(f, in_axes=0, out_axes=0)\<close> applies \<open>f\<close> to each entry along axis 0 of
  its argument and stacks the results along axis 0.
\<close>

definition vmap :: "('a \<Rightarrow> 'b) \<Rightarrow> 'a list \<Rightarrow> 'b list" where
  "vmap g xs = map g xs"

fun shape3 :: "'a list list list \<Rightarrow> nat \<times> nat \<times> nat" where
  "shape3 [] = (0, 0, 0)"
| "shape3 ([] # ms) = (Suc (length ms), 0, 0)"
| "shape3 ((r # rs) # ms) = (Suc (length ms), Suc (length rs), length r)"

definition zeros :: "nat \<Rightarrow> nat \<Rightarrow> real list list" where
  "zeros n m = replicate n (replicate m 0)"

text \<open>\<^verbatim>\<open>result[:, i, :]\<close> and \<^verbatim>\<open>.flatten()\<close>.\<close>

definition slice_axis1 :: "'a list list list \<Rightarrow> nat \<Rightarrow> 'a list list" where
  "slice_axis1 a i = map (\<lambda>m. m ! i) a"

definition flatten :: "'a list list \<Rightarrow> 'a list" where
  "flatten a = concat a"

text \<open>
  The int32 entries are stored into a float32 array: a conversion that is exact for an
  integer below \<open>2 ^ 24\<close> in absolute value, as all entries here are.
\<close>

definition to_float32 :: "32 word \<Rightarrow> real" where
  "to_float32 v = real_of_int (sint v)"

text \<open>
  \<^verbatim>\<open>re_res.at[i].set(row)\<close> returns a copy of \<open>re_res\<close> with row \<open>i\<close> replaced. jax
  drops an update whose index is out of bounds, broadcasts a row of one entry and
  raises (\<open>None\<close>) when the row has another wrong length.
\<close>

definition at_set :: "real list list \<Rightarrow> nat \<Rightarrow> real list \<Rightarrow> real list list option" where
  "at_set a i row =
     (if length a \<le> i then Some a
      else if length row = length (a ! i) then Some (a[i := row])
      else if length row = 1 then Some (a[i := replicate (length (a ! i)) (hd row)])
      else None)"

text \<open>
  \<^verbatim>\<open>
  def rr():
      vmap_f = jax.vmap(f, in_axes=0, out_axes=0)
      result = vmap_f(jnp.array([0, 1, 2]))
      re_res = jnp.zeros(shape=(4,9))
      for i in range(result.shape[1]):
          re_res = re_res.at[i].set(result[:,i,:].flatten())
      print(result.shape)
      print(re_res)
  \<close>
  The model returns the two printed values.
\<close>

fun rr_loop :: "nat list \<Rightarrow> 32 word list list list \<Rightarrow> real list list \<Rightarrow> real list list option" where
  "rr_loop [] result re_res = Some re_res"
| "rr_loop (i # is) result re_res =
     (case at_set re_res i (map to_float32 (flatten (slice_axis1 result i))) of
        None \<Rightarrow> None
      | Some re_res' \<Rightarrow> rr_loop is result re_res')"

definition rr :: "((nat \<times> nat \<times> nat) \<times> real list list) option" where
  "rr = (let result = vmap f [0, 1, 2];
             re_res = zeros 4 9
         in case rr_loop [0 ..< fst (snd (shape3 result))] result re_res of
              None \<Rightarrow> None
            | Some re_res' \<Rightarrow> Some (shape3 result, re_res'))"

section \<open>A small library to run the class on\<close>

text \<open>
  A stand-in for the libraries: an object is the text of the expression that built it,
  the world counts the calls. \<^verbatim>\<open>None\<close> has no \<^verbatim>\<open>astype\<close> and cannot be called, and
  \<^verbatim>\<open>gpx.fit\<close> rejects \<^verbatim>\<open>None\<close> as an optimizer.
\<close>

definition repr :: "string pyval \<Rightarrow> string" where
  "repr v = (case v of PyNone \<Rightarrow> ''None'' | PyObj a \<Rightarrow> a)"

definition toy_lib :: "(string, nat) extlib" where
  "toy_lib =
    \<lparr>gpx_RBF = (\<lambda>w. (Inr (PyObj ''RBF()''), Suc w)),
     gpx_Zero = (\<lambda>w. (Inr (PyObj ''Zero()''), Suc w)),
     gpx_LogPosteriorDensity = (\<lambda>negative w. (Inr (PyObj ''LogPosteriorDensity()''), Suc w)),
     jr_PRNGKey = (\<lambda>n w. (Inr (PyObj ''PRNGKey()''), Suc w)),
     ox_adam = PyObj ''adam'',
     gpx_gps_Prior = (\<lambda>m k w. (Inr (PyObj (''Prior('' @ repr m @ '','' @ repr k @ '')'')), Suc w)),
     py_mul = (\<lambda>a b w. (Inr (PyObj (repr a @ ''*'' @ repr b)), Suc w)),
     py_astype = (\<lambda>a t w.
        (case a of
           PyNone \<Rightarrow> Inl (PyExn ''AttributeError'' ''None has no attribute astype'')
         | PyObj n \<Rightarrow> Inr (PyObj (n @ ''.astype(float32)'')), Suc w)),
     gpx_Dataset = (\<lambda>a b w. (Inr (PyObj (''Dataset('' @ repr a @ '','' @ repr b @ '')'')), Suc w)),
     call_objective = (\<lambda>callee m d w.
        (case callee of
           PyNone \<Rightarrow> Inl (PyExn ''TypeError'' ''None is not callable'')
         | PyObj n \<Rightarrow> Inr (PyObj (n @ ''('' @ repr m @ '','' @ repr d @ '')'')), Suc w)),
     gpx_fit = (\<lambda>a w.
        (case arg_optim a of
           PyNone \<Rightarrow> Inl (PyExn ''AttributeError'' ''None has no attribute init'')
         | PyObj n \<Rightarrow> Inr (PyObj (''fitted('' @ repr (arg_model a) @ '')''), PyObj ''history''), Suc w)),
     py_predict = (\<lambda>p x d w. (Inr (PyObj (repr p @ ''.predict('' @ repr x @ '')'')), Suc w)),
     py_likelihood = (\<lambda>p latent w. (Inr (PyObj (''likelihood('' @ repr latent @ '')'')), Suc w)),
     py_mean = (\<lambda>dist w. (Inr (PyObj (repr dist @ ''.mean()'')), Suc w)),
     py_stddev = (\<lambda>dist w. (Inr (PyObj (repr dist @ ''.stddev()'')), Suc w))\<rparr>"

definition toy_env :: "(string, nat) env" where
  "toy_env = \<lparr>world = 0, calls = []\<rparr>"

definition toy_self :: "string GPClassification" where
  "toy_self = \<lparr>kernel = PyObj ''k'', mean_fun = PyObj ''m'', key = PyObj ''key'',
     prior = PyObj ''prior'', likelihood = PyObj ''lik'', object = PyObj ''obj'',
     posterior = PyObj ''post'', dataset = None, opt_posterior = None, history = None\<rparr>"

definition toy_frame :: "(string, nat) frame" where
  "toy_frame = \<lparr>world = 0, calls = [], self = toy_self\<rparr>"

definition toy_fitted :: "(string, nat) frame" where
  "toy_fitted = \<lparr>world = 0, calls = [],
     self = toy_self\<lparr>dataset := Some (PyObj ''ds''), opt_posterior := Some (PyObj ''opt''),
                     history := Some (PyObj ''hist'')\<rparr>\<rparr>"

section \<open>Loading the module without gpjax\<close>

lemmas py_defs = py_bind_def py_return_def py_raise_def ext_call_def get_attr_def
  get_fit_attr_def set_attr_def outcome_def

text \<open>
  Each of the four stubs, when it is called, raises an ImportError whose message holds
  the text of the import failure between the quotes.
\<close>

lemma stubs_raise:
  "gpx_stub msg s = (Inl (PyExn ''ImportError''
      (''gpjax requires gpjax, but got \"'' @ msg @ ''\" when importing'')), s)"
  "RBF_stub msg s = (Inl (PyExn ''ImportError''
      (''RBF requires gpjax, but got \"'' @ msg @ ''\" when importing'')), s)"
  "Zero_stub msg s = (Inl (PyExn ''ImportError''
      (''Zero requires gpjax, but got \"'' @ msg @ ''\" when importing'')), s)"
  "LogPosteriorDensity_stub msg s = (Inl (PyExn ''ImportError''
      (''LogPosteriorDensity requires gpjax, but got \"'' @ msg @ ''\" when importing'')), s)"
  by (simp_all add: gpx_stub_def RBF_stub_def Zero_stub_def LogPosteriorDensity_stub_def
      py_raise_def)

text \<open>
  Claim C1 says that a failed import of gpjax is deferred to the first use of a stub or
  of the wrapper, and that no error is raised before. On the code the module itself
  does not load: the class statement evaluates the default \<^verbatim>\<open>kernel=RBF()\<close>, the name
  \<^verbatim>\<open>RBF\<close> is bound to the stub, and the ImportError of the stub leaves the module load,
  for every text of the import failure and before any library call is made. The class
  \<^verbatim>\<open>GPClassification\<close> is never created, so there is no wrapper to construct.
\<close>

theorem module_load_import_failed:
  "module_load l (ImportFailed msg) s =
     (Inl (PyExn ''ImportError''
        (''RBF requires gpjax, but got \"'' @ msg @ ''\" when importing'')), s)"
  by (simp add: module_load_def class_GPClassification_def bind_names_def RBF_stub_def py_defs)

section \<open>What \<^verbatim>\<open>fit\<close> does\<close>

lemmas toy_defs = toy_lib_def toy_frame_def toy_fitted_def toy_self_def toy_env_def repr_def

text \<open>
  The run of \<^verbatim>\<open>fit\<close> once the two casts, the dataset constructor and the evaluation
  of the objective have returned: the call of \<^verbatim>\<open>gpx.fit\<close> and the two assignments.
\<close>

lemma fit_after_objective:
  assumes "py_astype l x Float32 (world s) = (Inr x32, w1)"
      and "py_astype l y Float32 w1 = (Inr y32, w2)"
      and "gpx_Dataset l x32 y32 w2 = (Inr d, w3)"
      and "call_objective l (object (self s)) (posterior (self s)) d w3 = (Inr v, w4)"
  shows "fit l x y optimizer s =
     (let a = \<lparr>arg_model = posterior (self s), arg_objective = object (self s),
                arg_train_data = d, arg_optim = optimizer, arg_num_iters = 500,
                arg_key = key (self s), arg_verbose = False\<rparr>;
          pre = calls s @ [(C_astype x Float32, None), (C_astype y Float32, None),
                  (C_Dataset x32 y32, None),
                  (C_objective (object (self s)) (posterior (self s)) d, None)]
      in case gpx_fit l a w4 of
           (Inl e, w5) \<Rightarrow>
             (Inl e, s\<lparr>world := w5, calls := pre @ [(C_fit a, Some e)],
                        self := (self s)\<lparr>dataset := Some d\<rparr>\<rparr>)
         | (Inr res, w5) \<Rightarrow>
             (Inr (), s\<lparr>world := w5, calls := pre @ [(C_fit a, None)],
                        self := (self s)\<lparr>dataset := Some d, opt_posterior := Some (fst res),
                                          history := Some (snd res)\<rparr>\<rparr>))"
  using assms unfolding fit_def
  by (simp add: py_defs Let_def split: prod.splits sum.splits)

text \<open>
  Claim C2: \<^verbatim>\<open>fit\<close> casts \<open>x\<close> and then \<open>y\<close> to float32, builds a dataset from the
  two cast arrays and stores it in \<^verbatim>\<open>self.dataset\<close>. Where the three library calls
  return, these are the first three calls of \<^verbatim>\<open>fit\<close>, and the attribute holds the
  dataset just built whatever happens later in the call and whatever the attribute held
  before (\<open>old\<close>): the dataset is rebuilt on each call.
\<close>

theorem fit_builds_dataset:
  assumes "py_astype l x Float32 (world s) = (Inr x32, w1)"
      and "py_astype l y Float32 w1 = (Inr y32, w2)"
      and "gpx_Dataset l x32 y32 w2 = (Inr d, w3)"
  shows "dataset (self (snd (fit l x y optimizer s))) = Some d \<and>
         take 3 (new_calls s (snd (fit l x y optimizer s))) =
           [(C_astype x Float32, None), (C_astype y Float32, None), (C_Dataset x32 y32, None)] \<and>
         dataset (self (snd (fit l x y optimizer (s\<lparr>self := (self s)\<lparr>dataset := old\<rparr>\<rparr>)))) = Some d"
  using assms unfolding fit_def new_calls_def
  by (simp add: py_defs Let_def split: prod.splits sum.splits)

theorem fit_builds_dataset_witness:
  "py_astype toy_lib (PyObj ''x'') Float32 (world toy_fitted) = (Inr (PyObj ''x.astype(float32)''), 1) \<and>
   py_astype toy_lib (PyObj ''y'') Float32 1 = (Inr (PyObj ''y.astype(float32)''), 2) \<and>
   gpx_Dataset toy_lib (PyObj ''x.astype(float32)'') (PyObj ''y.astype(float32)'') 2 =
     (Inr (PyObj ''Dataset(x.astype(float32),y.astype(float32))''), 3) \<and>
   dataset (self (snd (fit toy_lib (PyObj ''x'') (PyObj ''y'') PyNone toy_fitted))) =
     Some (PyObj ''Dataset(x.astype(float32),y.astype(float32))'')"
proof -
  have h1: "py_astype toy_lib (PyObj ''x'') Float32 (world toy_fitted) = (Inr (PyObj ''x.astype(float32)''), 1)"
    by (simp add: toy_defs)
  have h2: "py_astype toy_lib (PyObj ''y'') Float32 1 = (Inr (PyObj ''y.astype(float32)''), 2)"
    by (simp add: toy_defs)
  have h3: "gpx_Dataset toy_lib (PyObj ''x.astype(float32)'') (PyObj ''y.astype(float32)'') 2 =
     (Inr (PyObj ''Dataset(x.astype(float32),y.astype(float32))''), 3)"
    by (simp add: toy_defs)
  from fit_builds_dataset [OF h1 h2 h3, of PyNone] h1 h2 h3 show ?thesis
    by (simp add: toy_frame_def toy_fitted_def)
qed

text \<open>
  Claim C3: \<^verbatim>\<open>fit\<close> hands the optimization to \<^verbatim>\<open>gpx.fit\<close>, with the posterior, the
  objective, the dataset just built, the caller's optimizer, the key, \<^verbatim>\<open>verbose=False\<close>
  and \<^verbatim>\<open>num_iters=500\<close> for every optimizer; it is the last call of \<^verbatim>\<open>fit\<close> and the
  only call of \<^verbatim>\<open>gpx.fit\<close>. The two values it returns become \<^verbatim>\<open>self.opt_posterior\<close>
  and \<^verbatim>\<open>self.history\<close>; when it raises, the two attributes stay as they were.
\<close>

theorem fit_delegates_to_gpx_fit:
  assumes "py_astype l x Float32 (world s) = (Inr x32, w1)"
      and "py_astype l y Float32 w1 = (Inr y32, w2)"
      and "gpx_Dataset l x32 y32 w2 = (Inr d, w3)"
      and "call_objective l (object (self s)) (posterior (self s)) d w3 = (Inr v, w4)"
  shows "(let a = \<lparr>arg_model = posterior (self s), arg_objective = object (self s),
                arg_train_data = d, arg_optim = optimizer, arg_num_iters = 500,
                arg_key = key (self s), arg_verbose = False\<rparr>;
              r = fit l x y optimizer s
          in last (calls (snd r)) = (C_fit a, outcome (fst (gpx_fit l a w4))) \<and>
             length (filter (\<lambda>ev. is_fit_call (fst ev)) (new_calls s (snd r))) = 1 \<and>
             (\<forall>p h w5. gpx_fit l a w4 = (Inr (p, h), w5) \<longrightarrow>
                fst r = Inr () \<and> opt_posterior (self (snd r)) = Some p \<and>
                history (self (snd r)) = Some h \<and> world (snd r) = w5) \<and>
             (\<forall>e w5. gpx_fit l a w4 = (Inl e, w5) \<longrightarrow>
                fst r = Inl e \<and> opt_posterior (self (snd r)) = opt_posterior (self s) \<and>
                history (self (snd r)) = history (self s) \<and> world (snd r) = w5))"
  unfolding fit_after_objective [OF assms] new_calls_def
  by (auto simp add: Let_def outcome_def split: prod.splits sum.splits)

theorem fit_delegates_to_gpx_fit_witness:
  "py_astype toy_lib (PyObj ''x'') Float32 (world toy_frame) = (Inr (PyObj ''x.astype(float32)''), 1) \<and>
   py_astype toy_lib (PyObj ''y'') Float32 1 = (Inr (PyObj ''y.astype(float32)''), 2) \<and>
   gpx_Dataset toy_lib (PyObj ''x.astype(float32)'') (PyObj ''y.astype(float32)'') 2 =
     (Inr (PyObj ''Dataset(x.astype(float32),y.astype(float32))''), 3) \<and>
   call_objective toy_lib (object (self toy_frame)) (posterior (self toy_frame))
     (PyObj ''Dataset(x.astype(float32),y.astype(float32))'') 3 =
     (Inr (PyObj ''obj(post,Dataset(x.astype(float32),y.astype(float32)))''), 4) \<and>
   fst (fit toy_lib (PyObj ''x'') (PyObj ''y'') (PyObj ''adam'') toy_frame) = Inr () \<and>
   opt_posterior (self (snd (fit toy_lib (PyObj ''x'') (PyObj ''y'') (PyObj ''adam'') toy_frame))) =
     Some (PyObj ''fitted(post)'') \<and>
   history (self (snd (fit toy_lib (PyObj ''x'') (PyObj ''y'') (PyObj ''adam'') toy_frame))) =
     Some (PyObj ''history'')"
proof -
  have h1: "py_astype toy_lib (PyObj ''x'') Float32 (world toy_frame) = (Inr (PyObj ''x.astype(float32)''), 1)"
    by (simp add: toy_defs)
  have h2: "py_astype toy_lib (PyObj ''y'') Float32 1 = (Inr (PyObj ''y.astype(float32)''), 2)"
    by (simp add: toy_defs)
  have h3: "gpx_Dataset toy_lib (PyObj ''x.astype(float32)'') (PyObj ''y.astype(float32)'') 2 =
     (Inr (PyObj ''Dataset(x.astype(float32),y.astype(float32))''), 3)"
    by (simp add: toy_defs)
  have h4: "call_objective toy_lib (object (self toy_frame)) (posterior (self toy_frame))
     (PyObj ''Dataset(x.astype(float32),y.astype(float32))'') 3 =
     (Inr (PyObj ''obj(post,Dataset(x.astype(float32),y.astype(float32)))''), 4)"
    by (simp add: toy_defs)
  have h5: "gpx_fit toy_lib \<lparr>arg_model = posterior (self toy_frame), arg_objective = object (self toy_frame),
                arg_train_data = PyObj ''Dataset(x.astype(float32),y.astype(float32))'',
                arg_optim = PyObj ''adam'', arg_num_iters = 500,
                arg_key = key (self toy_frame), arg_verbose = False\<rparr> 4 =
       (Inr (PyObj ''fitted(post)'', PyObj ''history''), 5)"
    by (simp add: toy_defs)
  from fit_delegates_to_gpx_fit [OF h1 h2 h3 h4, of "PyObj ''adam''"] h5 h1 h2 h3 h4
  show ?thesis
    by (simp add: Let_def)
qed

section \<open>What \<^verbatim>\<open>predict\<close> returns\<close>

text \<open>
  Claim C4: \<^verbatim>\<open>predict(x)\<close> returns the triple of the predictive distribution, its
  mean and its standard deviation: the optimized posterior's \<^verbatim>\<open>predict\<close> on \<open>x\<close> with
  the stored dataset gives the latent distribution, the posterior's likelihood applied
  to it gives the predictive distribution, and \<^verbatim>\<open>mean()\<close> and \<^verbatim>\<open>stddev()\<close> of that
  distribution are the second and third component.
\<close>

theorem predict_returns_triple:
  assumes "opt_posterior (self s) = Some p"
      and "dataset (self s) = Some d"
      and "py_predict l p x d (world s) = (Inr latent_dist, w1)"
      and "py_likelihood l p latent_dist w1 = (Inr predictive_dist, w2)"
      and "py_mean l predictive_dist w2 = (Inr predictive_mean, w3)"
      and "py_stddev l predictive_dist w3 = (Inr predictive_std, w4)"
  shows "predict l x s =
     (Inr (predictive_dist, predictive_mean, predictive_std),
      s\<lparr>world := w4,
        calls := calls s @ [(C_predict p x d, None), (C_likelihood p latent_dist, None),
                   (C_mean predictive_dist, None), (C_stddev predictive_dist, None)]\<rparr>)"
  using assms unfolding predict_def
  by (simp add: py_defs)

theorem predict_returns_triple_witness:
  "opt_posterior (self toy_fitted) = Some (PyObj ''opt'') \<and>
   dataset (self toy_fitted) = Some (PyObj ''ds'') \<and>
   py_predict toy_lib (PyObj ''opt'') (PyObj ''x'') (PyObj ''ds'') (world toy_fitted) =
     (Inr (PyObj ''opt.predict(x)''), 1) \<and>
   py_likelihood toy_lib (PyObj ''opt'') (PyObj ''opt.predict(x)'') 1 =
     (Inr (PyObj ''likelihood(opt.predict(x))''), 2) \<and>
   py_mean toy_lib (PyObj ''likelihood(opt.predict(x))'') 2 =
     (Inr (PyObj ''likelihood(opt.predict(x)).mean()''), 3) \<and>
   py_stddev toy_lib (PyObj ''likelihood(opt.predict(x))'') 3 =
     (Inr (PyObj ''likelihood(opt.predict(x)).stddev()''), 4) \<and>
   fst (predict toy_lib (PyObj ''x'') toy_fitted) =
     Inr (PyObj ''likelihood(opt.predict(x))'', PyObj ''likelihood(opt.predict(x)).mean()'',
          PyObj ''likelihood(opt.predict(x)).stddev()'')"
proof -
  have h1: "opt_posterior (self toy_fitted) = Some (PyObj ''opt'')"
    by (simp add: toy_defs)
  have h2: "dataset (self toy_fitted) = Some (PyObj ''ds'')"
    by (simp add: toy_defs)
  have h3: "py_predict toy_lib (PyObj ''opt'') (PyObj ''x'') (PyObj ''ds'') (world toy_fitted) =
     (Inr (PyObj ''opt.predict(x)''), 1)"
    by (simp add: toy_defs)
  have h4: "py_likelihood toy_lib (PyObj ''opt'') (PyObj ''opt.predict(x)'') 1 =
     (Inr (PyObj ''likelihood(opt.predict(x))''), 2)"
    by (simp add: toy_defs)
  have h5: "py_mean toy_lib (PyObj ''likelihood(opt.predict(x))'') 2 =
     (Inr (PyObj ''likelihood(opt.predict(x)).mean()''), 3)"
    by (simp add: toy_defs)
  have h6: "py_stddev toy_lib (PyObj ''likelihood(opt.predict(x))'') 3 =
     (Inr (PyObj ''likelihood(opt.predict(x)).stddev()''), 4)"
    by (simp add: toy_defs)
  from predict_returns_triple [OF h1 h2 h3 h4 h5 h6] h1 h2 h3 h4 h5 h6 show ?thesis
    by simp
qed

section \<open>The calls of a run, case by case\<close>

text \<open>
  Every run of \<^verbatim>\<open>fit\<close> adds one of six sequences of calls to the record: it stops at
  the first call that raises, with that exception as its result, or makes all five.
\<close>

lemma fit_trace_cases:
  "\<exists>x32 y32 d a e.
     (let new = new_calls s (snd (fit l x y optimizer s)); r = fst (fit l x y optimizer s);
          s' = snd (fit l x y optimizer s) in
      calls s' = calls s @ new \<and>
      (new = [(C_astype x Float32, Some e)] \<and> r = Inl e
     \<or> new = [(C_astype x Float32, None), (C_astype y Float32, Some e)] \<and> r = Inl e
     \<or> new = [(C_astype x Float32, None), (C_astype y Float32, None),
               (C_Dataset x32 y32, Some e)] \<and> r = Inl e
     \<or> new = [(C_astype x Float32, None), (C_astype y Float32, None),
               (C_Dataset x32 y32, None),
               (C_objective (object (self s)) (posterior (self s)) d, Some e)]
         \<and> r = Inl e \<and> dataset (self s') = Some d
     \<or> new = [(C_astype x Float32, None), (C_astype y Float32, None),
               (C_Dataset x32 y32, None),
               (C_objective (object (self s)) (posterior (self s)) d, None),
               (C_fit a, Some e)]
         \<and> r = Inl e \<and> dataset (self s') = Some d \<and> arg_train_data a = d
     \<or> new = [(C_astype x Float32, None), (C_astype y Float32, None),
               (C_Dataset x32 y32, None),
               (C_objective (object (self s)) (posterior (self s)) d, None),
               (C_fit a, None)]
         \<and> r = Inr () \<and> dataset (self s') = Some d \<and> arg_train_data a = d))"
  unfolding fit_def new_calls_def
  by (simp add: py_defs Let_def split: prod.splits sum.splits)

text \<open>
  Likewise for \<^verbatim>\<open>predict\<close>; before any call, reading an attribute that \<^verbatim>\<open>fit\<close> has
  not set yet raises AttributeError.
\<close>

lemma predict_trace_cases:
  "\<exists>p d latent dist e.
     (let new = new_calls s (snd (predict l x s)); r = fst (predict l x s);
          s' = snd (predict l x s) in
      calls s' = calls s @ new \<and>
      (new = [] \<and> r = Inl (no_attribute ''opt_posterior'') \<and> opt_posterior (self s) = None
     \<or> new = [] \<and> r = Inl (no_attribute ''dataset'') \<and> dataset (self s) = None
     \<or> new = [(C_predict p x d, Some e)] \<and> r = Inl e
     \<or> new = [(C_predict p x d, None), (C_likelihood p latent, Some e)] \<and> r = Inl e
     \<or> new = [(C_predict p x d, None), (C_likelihood p latent, None), (C_mean dist, Some e)]
         \<and> r = Inl e
     \<or> new = [(C_predict p x d, None), (C_likelihood p latent, None), (C_mean dist, None),
               (C_stddev dist, Some e)] \<and> r = Inl e
     \<or> new = [(C_predict p x d, None), (C_likelihood p latent, None), (C_mean dist, None),
               (C_stddev dist, None)] \<and> (\<exists>v. r = Inr v)))"
  unfolding predict_def new_calls_def
  by (auto simp add: py_defs Let_def split: prod.splits sum.splits option.splits)

text \<open>
  Three runs on the small library: a full \<^verbatim>\<open>fit\<close>, a \<^verbatim>\<open>fit\<close> whose second cast
  raises, and a \<^verbatim>\<open>predict\<close> before any \<^verbatim>\<open>fit\<close>.
\<close>

lemma toy_fit_ok:
  "fit toy_lib (PyObj ''x'') (PyObj ''y'') (PyObj ''adam'') toy_frame =
    (Inr (),
     \<lparr>world = 5,
      calls = [(C_astype (PyObj ''x'') Float32, None), (C_astype (PyObj ''y'') Float32, None),
        (C_Dataset (PyObj ''x.astype(float32)'') (PyObj ''y.astype(float32)''), None),
        (C_objective (PyObj ''obj'') (PyObj ''post'')
           (PyObj ''Dataset(x.astype(float32),y.astype(float32))''), None),
        (C_fit \<lparr>arg_model = PyObj ''post'', arg_objective = PyObj ''obj'',
                arg_train_data = PyObj ''Dataset(x.astype(float32),y.astype(float32))'',
                arg_optim = PyObj ''adam'', arg_num_iters = 500,
                arg_key = PyObj ''key'', arg_verbose = False\<rparr>, None)],
      self = toy_self\<lparr>dataset := Some (PyObj ''Dataset(x.astype(float32),y.astype(float32))''),
               opt_posterior := Some (PyObj ''fitted(post)''),
               history := Some (PyObj ''history'')\<rparr>\<rparr>)"
  by (simp add: fit_def py_defs toy_defs)

lemma toy_fit_raises:
  "fit toy_lib (PyObj ''x'') PyNone (PyObj ''adam'') toy_frame =
    (Inl (PyExn ''AttributeError'' ''None has no attribute astype''),
     \<lparr>world = 2,
      calls = [(C_astype (PyObj ''x'') Float32, None),
        (C_astype PyNone Float32, Some (PyExn ''AttributeError'' ''None has no attribute astype''))],
      self = toy_self\<rparr>)"
  by (simp add: fit_def py_defs toy_defs)

lemma toy_predict_raises:
  "predict toy_lib (PyObj ''x'') toy_frame = (Inl (no_attribute ''opt_posterior''), toy_frame)"
  by (simp add: predict_def py_defs toy_defs)

text \<open>
  Claim C6: in a call of \<^verbatim>\<open>fit\<close> the objective is evaluated at most once, and whenever
  \<^verbatim>\<open>gpx.fit\<close> is invoked (as in every call that returns) the record ends with exactly
  one evaluation of the objective, on \<^verbatim>\<open>self.posterior\<close> (not the optimized one) and the
  dataset just stored, which returned, followed at once by the call of \<^verbatim>\<open>gpx.fit\<close>.
  The value of that evaluation is discarded: replacing it by any other value \<open>g v\<close>
  changes neither the result of \<^verbatim>\<open>fit\<close>, nor the attributes, nor the arguments of
  \<^verbatim>\<open>gpx.fit\<close>, nor anything else of the final state.
\<close>

theorem objective_evaluated_once_and_discarded:
  "(let r = fst (fit l x y optimizer s); s' = snd (fit l x y optimizer s);
        new = new_calls s s'
    in length (filter (\<lambda>ev. is_objective_call (fst ev)) new) \<le> 1 \<and>
       ((\<exists>ev \<in> set new. is_fit_call (fst ev)) \<longrightarrow>
          (\<exists>pre d a out.
             new = pre @ [(C_objective (object (self s)) (posterior (self s)) d, None),
                          (C_fit a, out)] \<and>
             (\<forall>ev \<in> set pre. \<not> is_objective_call (fst ev) \<and> \<not> is_fit_call (fst ev)) \<and>
             dataset (self s') = Some d \<and> arg_train_data a = d)) \<and>
       (r = Inr () \<longrightarrow> (\<exists>ev \<in> set new. is_fit_call (fst ev)))) \<and>
   fit (with_objective_value g l) x y optimizer s = fit l x y optimizer s"
proof -
  have A: "(let r = fst (fit l x y optimizer s); s' = snd (fit l x y optimizer s);
        new = new_calls s s'
    in length (filter (\<lambda>ev. is_objective_call (fst ev)) new) \<le> 1 \<and>
       ((\<exists>ev \<in> set new. is_fit_call (fst ev)) \<longrightarrow>
          (\<exists>pre d a out.
             new = pre @ [(C_objective (object (self s)) (posterior (self s)) d, None),
                          (C_fit a, out)] \<and>
             (\<forall>ev \<in> set pre. \<not> is_objective_call (fst ev) \<and> \<not> is_fit_call (fst ev)) \<and>
             dataset (self s') = Some d \<and> arg_train_data a = d)) \<and>
       (r = Inr () \<longrightarrow> (\<exists>ev \<in> set new. is_fit_call (fst ev))))"
    using fit_trace_cases [of s l x y optimizer]
    unfolding Let_def
  proof (elim exE conjE disjE, goal_cases)
    case (1 x32 y32 d a e) then show ?case by simp
  next
    case (2 x32 y32 d a e) then show ?case by simp
  next
    case (3 x32 y32 d a e) then show ?case by simp
  next
    case (4 x32 y32 d a e) then show ?case by simp
  next
    case (5 x32 y32 d a e)
    then show ?case by simp
  next
    case (6 x32 y32 d a e)
    then show ?case by simp
  qed
  have B: "fit (with_objective_value g l) x y optimizer s = fit l x y optimizer s"
    unfolding fit_def with_objective_value_def
    by (simp add: py_defs Let_def split: prod.splits sum.splits)
  from A B show ?thesis by (rule conjI)
qed

theorem objective_evaluated_once_and_discarded_witness:
  "fst (fit toy_lib (PyObj ''x'') (PyObj ''y'') (PyObj ''adam'') toy_frame) = Inr () \<and>
   (\<exists>ev \<in> set (new_calls toy_frame
       (snd (fit toy_lib (PyObj ''x'') (PyObj ''y'') (PyObj ''adam'') toy_frame))).
       is_fit_call (fst ev)) \<and>
   filter (\<lambda>ev. is_objective_call (fst ev)) (new_calls toy_frame
       (snd (fit toy_lib (PyObj ''x'') (PyObj ''y'') (PyObj ''adam'') toy_frame))) =
     [(C_objective (PyObj ''obj'') (PyObj ''post'')
         (PyObj ''Dataset(x.astype(float32),y.astype(float32))''), None)] \<and>
   fit (with_objective_value (\<lambda>v. PyNone) toy_lib) (PyObj ''x'') (PyObj ''y'') (PyObj ''adam'') toy_frame =
     fit toy_lib (PyObj ''x'') (PyObj ''y'') (PyObj ''adam'') toy_frame"
  using objective_evaluated_once_and_discarded [of toy_lib "PyObj ''x''" "PyObj ''y''"
      "PyObj ''adam''" toy_frame "\<lambda>v. PyNone"]
  by (simp add: toy_fit_ok new_calls_def Let_def) (simp add: toy_frame_def)

text \<open>
  Claim C7: \<^verbatim>\<open>fit\<close> and \<^verbatim>\<open>predict\<close> handle no error. In every run all calls but the
  last returned normally, so an exception of a library ends the method at once (no
  retry: at most five, respectively four, calls are made); the method raises \<open>e\<close> exactly
  when its last call raised \<open>e\<close>, the exception unchanged. \<^verbatim>\<open>fit\<close> raises nothing of its
  own (no validation of its inputs); \<^verbatim>\<open>predict\<close> raises of its own only Python's
  AttributeError for an attribute that no \<^verbatim>\<open>fit\<close> has set. The record holds library
  calls only: the wrapper writes no log.
\<close>

theorem external_exceptions_propagate:
  "(let r = fst (fit l x y optimizer s); s' = snd (fit l x y optimizer s);
        new = new_calls s s'
    in calls s' = calls s @ new \<and> length new \<le> 5 \<and>
       (\<forall>ev \<in> set (butlast new). snd ev = None) \<and>
       (\<forall>e. r = Inl e \<longleftrightarrow> new \<noteq> [] \<and> snd (last new) = Some e)) \<and>
   (let r = fst (predict l x' t); t' = snd (predict l x' t); new = new_calls t t'
    in calls t' = calls t @ new \<and> length new \<le> 4 \<and>
       (\<forall>ev \<in> set (butlast new). snd ev = None) \<and>
       (\<forall>e. new \<noteq> [] \<and> snd (last new) = Some e \<longrightarrow> r = Inl e) \<and>
       (\<forall>e. r = Inl e \<longrightarrow> new \<noteq> [] \<and> snd (last new) = Some e
           \<or> new = [] \<and> e = no_attribute ''opt_posterior'' \<and> opt_posterior (self t) = None
           \<or> new = [] \<and> e = no_attribute ''dataset'' \<and> dataset (self t) = None))"
proof -
  have A: "(let r = fst (fit l x y optimizer s); s' = snd (fit l x y optimizer s);
        new = new_calls s s'
    in calls s' = calls s @ new \<and> length new \<le> 5 \<and>
       (\<forall>ev \<in> set (butlast new). snd ev = None) \<and>
       (\<forall>e. r = Inl e \<longleftrightarrow> new \<noteq> [] \<and> snd (last new) = Some e))"
    using fit_trace_cases [of s l x y optimizer]
    unfolding Let_def by (elim exE conjE disjE) simp_all
  have B: "(let r = fst (predict l x' t); t' = snd (predict l x' t); new = new_calls t t'
    in calls t' = calls t @ new \<and> length new \<le> 4 \<and>
       (\<forall>ev \<in> set (butlast new). snd ev = None) \<and>
       (\<forall>e. new \<noteq> [] \<and> snd (last new) = Some e \<longrightarrow> r = Inl e) \<and>
       (\<forall>e. r = Inl e \<longrightarrow> new \<noteq> [] \<and> snd (last new) = Some e
           \<or> new = [] \<and> e = no_attribute ''opt_posterior'' \<and> opt_posterior (self t) = None
           \<or> new = [] \<and> e = no_attribute ''dataset'' \<and> dataset (self t) = None))"
    using predict_trace_cases [of t l x']
    unfolding Let_def by (elim exE conjE disjE) simp_all
  from A B show ?thesis by (rule conjI)
qed

theorem external_exceptions_propagate_witness:
  "fst (fit toy_lib (PyObj ''x'') PyNone (PyObj ''adam'') toy_frame) =
     Inl (PyExn ''AttributeError'' ''None has no attribute astype'') \<and>
   new_calls toy_frame (snd (fit toy_lib (PyObj ''x'') PyNone (PyObj ''adam'') toy_frame)) \<noteq> [] \<and>
   snd (last (new_calls toy_frame (snd (fit toy_lib (PyObj ''x'') PyNone (PyObj ''adam'') toy_frame)))) =
     Some (PyExn ''AttributeError'' ''None has no attribute astype'') \<and>
   butlast (new_calls toy_frame
        (snd (fit toy_lib (PyObj ''x'') PyNone (PyObj ''adam'') toy_frame))) =
     [(C_astype (PyObj ''x'') Float32, None)] \<and>
   fst (predict toy_lib (PyObj ''x'') toy_frame) = Inl (no_attribute ''opt_posterior'') \<and>
   new_calls toy_frame (snd (predict toy_lib (PyObj ''x'') toy_frame)) = [] \<and>
   opt_posterior (self toy_frame) = None"
  using external_exceptions_propagate [of toy_lib "PyObj ''x''" PyNone "PyObj ''adam''" toy_frame
      "PyObj ''x''" toy_frame]
  by (simp add: toy_fit_raises toy_predict_raises new_calls_def Let_def)
     (simp add: toy_defs)

section \<open>Which attributes are written, and when\<close>

lemma fit_frame:
  "kernel (self (snd (fit l x y optimizer s))) = kernel (self s)"
  "mean_fun (self (snd (fit l x y optimizer s))) = mean_fun (self s)"
  "key (self (snd (fit l x y optimizer s))) = key (self s)"
  "prior (self (snd (fit l x y optimizer s))) = prior (self s)"
  "likelihood (self (snd (fit l x y optimizer s))) = likelihood (self s)"
  "object (self (snd (fit l x y optimizer s))) = object (self s)"
  "posterior (self (snd (fit l x y optimizer s))) = posterior (self s)"
  unfolding fit_def
  by (simp_all add: py_defs Let_def split: prod.splits sum.splits)

lemma predict_frame: "self (snd (predict l x s)) = self s"
  unfolding predict_def
  by (auto simp add: py_defs Let_def split: prod.splits sum.splits option.splits)

lemma init_attrs:
  "init l k m lik obj ky e = (Inr i, e') \<Longrightarrow>
     kernel i = k \<and> mean_fun i = m \<and> key i = ky \<and> likelihood i = lik \<and> object i = obj \<and>
     dataset i = None \<and> opt_posterior i = None \<and> history i = None"
  unfolding init_def
  by (auto simp add: py_defs Let_def split: prod.splits sum.splits)

text \<open>
  Claim C9: \<^verbatim>\<open>__init__\<close> writes \<^verbatim>\<open>kernel\<close>, \<^verbatim>\<open>mean_fun\<close>, \<^verbatim>\<open>key\<close>, \<^verbatim>\<open>prior\<close>,
  \<^verbatim>\<open>likelihood\<close>, \<^verbatim>\<open>object\<close> and \<^verbatim>\<open>posterior\<close> and leaves \<^verbatim>\<open>dataset\<close>,
  \<^verbatim>\<open>opt_posterior\<close> and \<^verbatim>\<open>history\<close> unset; \<^verbatim>\<open>fit\<close>, whether it returns or raises,
  leaves each of the seven attributes of construction time as it was; \<^verbatim>\<open>predict\<close>,
  whether it returns or raises, leaves every attribute as it was.
\<close>

theorem attributes_written_at_construction_or_fit:
  "(\<forall>i e'. init l k m lik obj ky e = (Inr i, e') \<longrightarrow>
      kernel i = k \<and> mean_fun i = m \<and> key i = ky \<and> likelihood i = lik \<and> object i = obj \<and>
      dataset i = None \<and> opt_posterior i = None \<and> history i = None) \<and>
   (let s' = snd (fit l x y optimizer s)
    in kernel (self s') = kernel (self s) \<and> mean_fun (self s') = mean_fun (self s) \<and>
       key (self s') = key (self s) \<and> prior (self s') = prior (self s) \<and>
       likelihood (self s') = likelihood (self s) \<and> object (self s') = object (self s) \<and>
       posterior (self s') = posterior (self s)) \<and>
   self (snd (predict l x' t)) = self t"
  using init_attrs [of l k m lik obj ky e]
  by (simp add: fit_frame predict_frame Let_def)

theorem attributes_written_at_construction_or_fit_witness:
  "(\<exists>i e'. init toy_lib (PyObj ''k'') (PyObj ''m'') PyNone (PyObj ''obj'') (PyObj ''key'') toy_env
       = (Inr i, e') \<and> kernel i = PyObj ''k'' \<and> likelihood i = PyNone \<and> dataset i = None \<and>
       opt_posterior i = None \<and> history i = None) \<and>
   posterior (self (snd (fit toy_lib (PyObj ''x'') (PyObj ''y'') (PyObj ''adam'') toy_frame))) =
     PyObj ''post'' \<and>
   self (snd (predict toy_lib (PyObj ''x'') toy_fitted)) = self toy_fitted"
  using attributes_written_at_construction_or_fit [of toy_lib "PyObj ''k''" "PyObj ''m''" PyNone
      "PyObj ''obj''" "PyObj ''key''" toy_env "PyObj ''x''" "PyObj ''y''" "PyObj ''adam''" toy_frame
      "PyObj ''x''" toy_fitted]
  by (simp add: init_def py_defs toy_defs Let_def)

section \<open>The array snippet: \<^verbatim>\<open>f\<close> and \<^verbatim>\<open>rr\<close>\<close>

lemma f_shape: "length (f x) = 4 \<and> (\<forall>row \<in> set (f x). length row = 3)"
  by (simp add: f_def)

lemma f_entry: "i < 4 \<Longrightarrow> k < 3 \<Longrightarrow> f x ! i ! k = x + of_nat (3 * i + k)"
  unfolding f_def
  by (auto simp: less_Suc_eq numeral_eq_Suc nth_Cons' ac_simps)

lemma rr_value:
  "rr = Some ((3, 4, 3),
     [[0, 1, 2, 1, 2, 3, 2, 3, 4], [3, 4, 5, 4, 5, 6, 5, 6, 7],
      [6, 7, 8, 7, 8, 9, 8, 9, 10], [9, 10, 11, 10, 11, 12, 11, 12, 13]])"
  by (simp add: rr_def vmap_def f_def zeros_def upt_conv_Cons at_set_def slice_axis1_def
      flatten_def to_float32_def numeral_eq_Suc)

text \<open>
  Claim C10: for every scalar \<open>x\<close>, \<^verbatim>\<open>f(x)\<close> is the 4-by-3 array with entry
  \<open>x + 3 * i + k\<close> at row \<open>i\<close>, column \<open>k\<close>; the vmapped result over \<open>[0, 1, 2]\<close> has shape
  \<open>(3, 4, 3)\<close>; \<^verbatim>\<open>rr\<close> prints that shape and the 4-by-9 array whose row \<open>i\<close> is the
  flattening of \<^verbatim>\<open>result[:, i, :]\<close>, so that its entry at column \<open>3 * j + k\<close> is
  \<open>j + 3 * i + k\<close>.
\<close>

theorem f_rr_entries:
  "(\<forall>(x::'a::semiring_1) i k. i < 4 \<longrightarrow> k < 3 \<longrightarrow> f x ! i ! k = x + of_nat (3 * i + k)) \<and>
   (\<forall>x::'a::semiring_1. length (f x) = 4 \<and> (\<forall>row \<in> set (f x). length row = 3)) \<and>
   shape3 (vmap f [0, 1, 2 :: 32 word]) = (3, 4, 3) \<and>
   (\<exists>re_res. rr = Some ((3, 4, 3), re_res) \<and> length re_res = 4 \<and>
      (\<forall>i<4. length (re_res ! i) = 9 \<and>
         re_res ! i = map to_float32 (flatten (slice_axis1 (vmap f [0, 1, 2]) i)) \<and>
         (\<forall>j<3. \<forall>k<3. re_res ! i ! (3 * j + k) = real (j + 3 * i + k))))"
proof (intro conjI)
  show "\<forall>(x::'a) i k. i < 4 \<longrightarrow> k < 3 \<longrightarrow> f x ! i ! k = x + of_nat (3 * i + k)"
    by (simp add: f_entry)
  show "\<forall>x::'a. length (f x) = 4 \<and> (\<forall>row \<in> set (f x). length row = 3)"
    by (simp add: f_shape)
  show "shape3 (vmap f [0, 1, 2 :: 32 word]) = (3, 4, 3)"
    by (simp add: vmap_def f_def)
  have rows: "\<And>i::nat. i < 4 \<Longrightarrow> i = 0 \<or> i = 1 \<or> i = 2 \<or> i = 3" by arith
  have cols: "\<And>j::nat. j < 3 \<Longrightarrow> j = 0 \<or> j = 1 \<or> j = 2" by arith
  show "\<exists>re_res. rr = Some ((3, 4, 3), re_res) \<and> length re_res = 4 \<and>
      (\<forall>i<4. length (re_res ! i) = 9 \<and>
         re_res ! i = map to_float32 (flatten (slice_axis1 (vmap f [0, 1, 2]) i)) \<and>
         (\<forall>j<3. \<forall>k<3. re_res ! i ! (3 * j + k) = real (j + 3 * i + k)))"
    unfolding rr_value
    apply (intro exI conjI allI impI)
        apply (rule refl)
       apply simp
      apply (drule rows, elim disjE; simp)
     apply (drule rows, elim disjE; simp add: vmap_def f_def slice_axis1_def flatten_def to_float32_def)
    apply (drule rows, drule cols, drule cols, elim disjE; simp)
    done
qed

theorem f_rr_entries_witness:
  "(2::nat) < 4 \<and> (1::nat) < 3 \<and> (2::nat) < 3 \<and> f (5::int) ! 2 ! 1 = 12 \<and>
   (\<exists>re_res. rr = Some ((3, 4, 3), re_res) \<and> re_res ! 2 ! (3 * 1 + 2) = 9)"
  using f_rr_entries [where 'a = int]
  by (auto simp add: rr_value)

end
